theory Spec2Isabelle
  imports Main
begin

section \<open>Strings\<close>

text \<open>
  A JavaScript string is modelled as a \<^typ>\<open>string\<close>: a list of code units, here restricted
  to the range of \<^typ>\<open>char\<close>. The three characters that cannot be written inside a
  literal get names.
\<close>

abbreviation nl :: char where "nl \<equiv> CHR 0x0A"
abbreviation dq :: char where "dq \<equiv> CHR 0x22"
abbreviation sq :: char where "sq \<equiv> CHR 0x27"

text \<open>The characters \<open>\s\<close> and \<open>trim()\<close> treat as white space: TAB, LF, VT, FF, CR, SP, NBSP.\<close>

definition isWhiteSpace :: "char \<Rightarrow> bool" where
  "isWhiteSpace c \<longleftrightarrow>
     c = CHR 0x09 \<or> c = CHR 0x0A \<or> c = CHR 0x0B \<or> c = CHR 0x0C \<or> c = CHR 0x0D \<or>
     c = CHR 0x20 \<or> c = CHR 0xA0"

text \<open>The characters the dot of a regular expression does not match (line terminators).\<close>

definition isLineTerminator :: "char \<Rightarrow> bool" where
  "isLineTerminator c \<longleftrightarrow> c = CHR 0x0A \<or> c = CHR 0x0D"

definition trim :: "string \<Rightarrow> string" where
  "trim s = rev (dropWhile isWhiteSpace (rev (dropWhile isWhiteSpace s)))"

text \<open>\<open>s.split("\n")\<close>: never empty, one more element than there are line feeds.\<close>

fun split_lines :: "string \<Rightarrow> string list" where
  "split_lines [] = [[]]"
| "split_lines (c # cs) =
     (if c = nl then [] # split_lines cs
      else (case split_lines cs of [] \<Rightarrow> [[c]] | l # ls \<Rightarrow> (c # l) # ls))"

text \<open>\<open>xs.join("\n")\<close>.\<close>

fun join_lines :: "string list \<Rightarrow> string" where
  "join_lines [] = []"
| "join_lines [l] = l"
| "join_lines (l # ls) = l @ nl # join_lines ls"

text \<open>\<open>s.lastIndexOf(".")\<close> followed by \<open>s.substring(i)\<close>: the suffix from the last dot on.\<close>

fun fromLastDot :: "string \<Rightarrow> string option" where
  "fromLastDot [] = None"
| "fromLastDot (c # cs) =
     (case fromLastDot cs of
        Some e \<Rightarrow> Some e
      | None \<Rightarrow> if c = CHR ''.'' then Some (c # cs) else None)"

text \<open>\<open>toLowerCase()\<close> on the code units below 256: the letters A to Z and the capital
  letters of Latin-1 (0xC0 to 0xDE, but for the multiplication sign 0xD7).\<close>

definition lowerChar :: "char \<Rightarrow> char" where
  "lowerChar c =
     (let n = (of_char c :: nat)
      in if (65 \<le> n \<and> n \<le> 90) \<or> (192 \<le> n \<and> n \<le> 222 \<and> n \<noteq> 215)
         then char_of (n + 32) else c)"

definition toLowerCase :: "string \<Rightarrow> string" where
  "toLowerCase s = map lowerChar s"

section \<open>Regular expressions\<close>

text \<open>
  Every regular expression of the program is a sequence of single-character classes, each
  taken once or under a quantifier, with capture groups that do not nest, possibly anchored
  at the start. The matcher below is the backtracking matcher of JavaScript on that fragment:
  the leftmost start wins, a greedy quantifier tries the longest run first, a lazy one the
  shortest.
\<close>

datatype cls =
    Lit char            \<comment> \<open>the character itself\<close>
  | Space               \<comment> \<open>\<open>\s\<close>\<close>
  | NonSpace            \<comment> \<open>\<open>\S\<close>\<close>
  | Dot                 \<comment> \<open>\<open>.\<close>\<close>
  | OneOf "char list"   \<comment> \<open>\<open>[...]\<close>\<close>
  | NoneOf "char list"  \<comment> \<open>\<open>[^...]\<close>\<close>

datatype quant = Once | Star | Plus | LazyPlus

datatype tok = Cls cls quant | GOpen | GClose

datatype regex = Regex (anchored: bool) (toks: "tok list")

fun cls_match :: "cls \<Rightarrow> char \<Rightarrow> bool" where
  "cls_match (Lit a) c = (c = a)"
| "cls_match Space c = isWhiteSpace c"
| "cls_match NonSpace c = (\<not> isWhiteSpace c)"
| "cls_match Dot c = (\<not> isLineTerminator c)"
| "cls_match (OneOf cs) c = (c \<in> set cs)"
| "cls_match (NoneOf cs) c = (c \<notin> set cs)"

definition lit :: "string \<Rightarrow> tok list" where
  "lit s = map (\<lambda>c. Cls (Lit c) Once) s"

text \<open>The lengths a quantified class may take, in the order the matcher tries them, when
  \<open>n\<close> characters in a row belong to the class.\<close>

fun candidates :: "quant \<Rightarrow> nat \<Rightarrow> nat list" where
  "candidates Once n = (if 1 \<le> n then [1] else [])"
| "candidates Star n = rev [0..<Suc n]"
| "candidates Plus n = rev [1..<Suc n]"
| "candidates LazyPlus n = [1..<Suc n]"

text \<open>
  A match at the start of the string: the text each token consumed, and the rest. A
  quantified class tries its candidate lengths in order and keeps the first with which
  the rest of the expression matches.
\<close>

fun match_here :: "tok list \<Rightarrow> string \<Rightarrow> (string list \<times> string) option"
  and try_lengths :: "tok list \<Rightarrow> string \<Rightarrow> nat list \<Rightarrow> (string list \<times> string) option" where
  "match_here [] s = Some ([], s)"
| "match_here (GOpen # ts) s =
     (case match_here ts s of Some (segs, r) \<Rightarrow> Some ([] # segs, r) | None \<Rightarrow> None)"
| "match_here (GClose # ts) s =
     (case match_here ts s of Some (segs, r) \<Rightarrow> Some ([] # segs, r) | None \<Rightarrow> None)"
| "match_here (Cls c q # ts) s =
     try_lengths ts s (candidates q (length (takeWhile (cls_match c) s)))"
| "try_lengths ts s [] = None"
| "try_lengths ts s (k # ks) =
     (case match_here ts (drop k s) of
        Some (segs, r) \<Rightarrow> Some (take k s # segs, r)
      | None \<Rightarrow> try_lengths ts s ks)"

text \<open>The text of the capture groups, from the text of the tokens.\<close>

fun captures :: "tok list \<Rightarrow> string list \<Rightarrow> string option \<Rightarrow> string list" where
  "captures (GOpen # ts) (sg # segs) cur = captures ts segs (Some [])"
| "captures (GClose # ts) (sg # segs) cur =
     (case cur of Some acc \<Rightarrow> acc # captures ts segs None | None \<Rightarrow> captures ts segs None)"
| "captures (Cls c q # ts) (sg # segs) cur =
     captures ts segs (map_option (\<lambda>acc. acc @ sg) cur)"
| "captures ts segs cur = []"

record rmatch =
  before :: string        \<comment> \<open>the text before the match\<close>
  matched :: string       \<comment> \<open>the text of the match\<close>
  groups :: "string list" \<comment> \<open>the capture groups, \<open>$1\<close> first\<close>
  after :: string         \<comment> \<open>the text after the match\<close>

fun search_from :: "tok list \<Rightarrow> string \<Rightarrow> string \<Rightarrow> rmatch option" where
  "search_from ts pre s =
     (case match_here ts s of
        Some (segs, r) \<Rightarrow>
          Some \<lparr>before = pre, matched = concat segs, groups = captures ts segs None, after = r\<rparr>
      | None \<Rightarrow> (case s of [] \<Rightarrow> None | c # cs \<Rightarrow> search_from ts (pre @ [c]) cs))"

text \<open>\<open>s.match(re)\<close> for a regular expression without the global flag.\<close>

definition rx_match :: "regex \<Rightarrow> string \<Rightarrow> rmatch option" where
  "rx_match re s =
     (if anchored re then
        (case match_here (toks re) s of
           Some (segs, r) \<Rightarrow>
             Some \<lparr>before = [], matched = concat segs,
                   groups = captures (toks re) segs None, after = r\<rparr>
         | None \<Rightarrow> None)
      else search_from (toks re) [] s)"

text \<open>\<open>re.test(s)\<close>.\<close>

definition rx_test :: "regex \<Rightarrow> string \<Rightarrow> bool" where
  "rx_test re s = (rx_match re s \<noteq> None)"

section \<open>Language service\<close>

datatype exn = IllegalLine | TypeError | ReadError

record CommentStyle =
  cs_start :: string
  cs_end :: string

record LanguageSettings =
  includeDirectivePattern :: regex
  startMarkerTemplate :: string
  endMarkerTemplate :: string

text \<open>An entry of the user's \<open>languageSettings\<close> table: each field is optional.\<close>

record LanguageSettingsOverride =
  includeDirectivePatternOpt :: "regex option"
  startMarkerTemplateOpt :: "string option"
  endMarkerTemplateOpt :: "string option"

record SectionOverride =
  fileType :: string
  pattern :: regex
  commentStyle :: string
  continueUntil :: regex

text \<open>
  The configuration section \<open>virtualInclude\<close> of the editor, as \<open>Constants.getConfiguration()\<close>
  returns it. Patterns are given as parsed regular expressions.
\<close>

record Config =
  defaultCommentStyle :: string
  detectFromExtension :: bool
  configuredLanguageSettings :: "string \<Rightarrow> LanguageSettingsOverride option"
  languageOverrides :: "SectionOverride list"

definition lineComment :: "string \<Rightarrow> CommentStyle" where
  "lineComment s = \<lparr>cs_start = s, cs_end = []\<rparr>"

definition COMMENT_STYLES :: "(string \<times> CommentStyle) list" where
  "COMMENT_STYLES =
     [(''javascript'', lineComment ''//''),
      (''typescript'', lineComment ''//''),
      (''python'', lineComment ''#''),
      (''ruby'', lineComment ''#''),
      (''powershell'', lineComment ''#''),
      (''shellscript'', lineComment ''#''),
      (''csharp'', lineComment ''//''),
      (''java'', lineComment ''//''),
      (''c'', lineComment ''//''),
      (''cpp'', lineComment ''//''),
      (''go'', lineComment ''//''),
      (''rust'', lineComment ''//''),
      (''php'', lineComment ''//''),
      (''perl'', lineComment ''#''),
      (''lua'', lineComment ''--''),
      (''sql'', lineComment ''--''),
      (''yaml'', lineComment ''#''),
      (''html'', \<lparr>cs_start = ''<!--'', cs_end = ''-->''\<rparr>),
      (''xml'', \<lparr>cs_start = ''<!--'', cs_end = ''-->''\<rparr>),
      (''css'', \<lparr>cs_start = ''/*'', cs_end = ''*/''\<rparr>)]"

definition getCommentStyle :: "Config \<Rightarrow> string \<Rightarrow> CommentStyle" where
  "getCommentStyle cfg lang =
     (case map_of COMMENT_STYLES lang of
        Some style \<Rightarrow> style
      | None \<Rightarrow> lineComment (defaultCommentStyle cfg))"

abbreviation quote :: tok where "quote \<equiv> Cls (OneOf [dq, sq]) Once"

text \<open>\<open>/virtualInclude\s+["'](.+?)["']\s+with\s+["']([^"']+)["']/\<close>\<close>

definition COMMENT_OVERRIDE_REGEX :: regex where
  "COMMENT_OVERRIDE_REGEX =
     Regex False
       (lit ''virtualInclude'' @
        [Cls Space Plus, quote, GOpen, Cls Dot LazyPlus, GClose, quote, Cls Space Plus] @
        lit ''with'' @
        [Cls Space Plus, quote, GOpen, Cls (NoneOf [dq, sq]) Plus, GClose, quote])"

definition EXTENSION_TO_LANGUAGE :: "(string \<times> string) list" where
  "EXTENSION_TO_LANGUAGE =
     [(''.js'', ''javascript''), (''.ts'', ''typescript''), (''.py'', ''python''),
      (''.rb'', ''ruby''), (''.ps1'', ''powershell''), (''.sh'', ''shellscript''),
      (''.cs'', ''csharp''), (''.java'', ''java''), (''.c'', ''c''), (''.cpp'', ''cpp''),
      (''.go'', ''go''), (''.rs'', ''rust''), (''.php'', ''php''), (''.pl'', ''perl''),
      (''.lua'', ''lua''), (''.sql'', ''sql''), (''.yaml'', ''yaml''), (''.yml'', ''yaml''),
      (''.html'', ''html''), (''.xml'', ''xml''), (''.css'', ''css'')]"

definition getLanguageFromExtension :: "Config \<Rightarrow> string \<Rightarrow> string option" where
  "getLanguageFromExtension cfg filePath =
     (if \<not> detectFromExtension cfg then None
      else (case fromLastDot filePath of
              None \<Rightarrow> None
            | Some extension \<Rightarrow> map_of EXTENSION_TO_LANGUAGE (toLowerCase extension)))"

definition getCommentStyleOverride :: "string \<Rightarrow> string option" where
  "getCommentStyleOverride line =
     (case rx_match COMMENT_OVERRIDE_REGEX line of
        Some m \<Rightarrow> (case groups m of [g1, g2] \<Rightarrow> Some g2 | _ \<Rightarrow> None)
      | None \<Rightarrow> None)"

text \<open>
  The built-in section overrides: \<open><script[^>]*>\s*\<close> until \<open></script>\<close> in HTML,
  \<open>template:\s*>-\<close> until \<open>^\S\<close> in YAML.
\<close>

definition BUILT_IN_SECTION_OVERRIDES :: "SectionOverride list" where
  "BUILT_IN_SECTION_OVERRIDES =
     [\<lparr>fileType = ''html'',
       pattern = Regex False
         (lit ''<script'' @ [Cls (NoneOf ''>'') Star, Cls (Lit CHR ''>'') Once, Cls Space Star]),
       commentStyle = ''//'',
       continueUntil = Regex False (lit ''</script>'')\<rparr>,
      \<lparr>fileType = ''yaml'',
       pattern = Regex False (lit ''template:'' @ [Cls Space Star] @ lit ''>-''),
       commentStyle = ''--'',
       continueUntil = Regex True [Cls NonSpace Once]\<rparr>]"

text \<open>
  The backward scan of \<open>getSectionOverride\<close>, at line \<open>i\<close>: the first relevant override whose
  start pattern matches line \<open>i\<close> decides; it applies unless one of the lines after \<open>i\<close>, up
  to the line asked for, matches its \<open>continueUntil\<close>.
\<close>

fun sectionScan :: "SectionOverride list \<Rightarrow> string list \<Rightarrow> nat \<Rightarrow> nat \<Rightarrow> string option" where
  "sectionScan rel ls lineNumber i =
     (case find (\<lambda>ov. rx_test (pattern ov) (ls ! i)) rel of
        Some ov \<Rightarrow>
          (if list_ex (\<lambda>j. rx_test (continueUntil ov) (ls ! j)) [Suc i..<Suc lineNumber]
           then None else Some (commentStyle ov))
      | None \<Rightarrow> (case i of 0 \<Rightarrow> None | Suc k \<Rightarrow> sectionScan rel ls lineNumber k))"

text \<open>An open document of the editor. \<open>document.lineAt\<close> throws outside the document.\<close>

record TextDocument =
  uri :: string
  fsPath :: string
  languageId :: string
  getText :: string
  isClosed :: bool

definition doc_lines :: "TextDocument \<Rightarrow> string list" where
  "doc_lines d = split_lines (getText d)"

definition getSectionOverride :: "Config \<Rightarrow> TextDocument \<Rightarrow> nat \<Rightarrow> exn + string option" where
  "getSectionOverride cfg document lineNumber =
     (let overrides = BUILT_IN_SECTION_OVERRIDES @ languageOverrides cfg;
          relevantOverrides = filter (\<lambda>ov. fileType ov = languageId document) overrides
      in if overrides = [] then Inr None
         else if relevantOverrides = [] then Inr None
         else if length (doc_lines document) \<le> lineNumber then Inl IllegalLine
         else Inr (sectionScan relevantOverrides (doc_lines document) lineNumber lineNumber))"

definition createDefaultSettings :: "CommentStyle \<Rightarrow> LanguageSettings" where
  "createDefaultSettings style =
     \<lparr>includeDirectivePattern =
        Regex False
          (lit (cs_start style) @ [Cls Space Star] @ lit ''virtualInclude'' @
           [Cls Space Plus, quote, GOpen, Cls Dot LazyPlus, GClose, quote]),
      startMarkerTemplate =
        cs_start style @ '' virtualIncludeStart - DO NOT EDIT CONTENT BELOW '' @ cs_end style,
      endMarkerTemplate =
        cs_start style @ '' virtualIncludeEnd - DO NOT EDIT CONTENT ABOVE '' @ cs_end style\<rparr>"

definition getLanguageSettings :: "Config \<Rightarrow> string \<Rightarrow> LanguageSettings" where
  "getLanguageSettings cfg lang =
     (let defaultSettings = createDefaultSettings (getCommentStyle cfg lang)
      in case configuredLanguageSettings cfg lang of
           None \<Rightarrow> defaultSettings
         | Some langSettings \<Rightarrow>
             \<lparr>includeDirectivePattern =
                (case includeDirectivePatternOpt langSettings of
                   Some p \<Rightarrow> p | None \<Rightarrow> includeDirectivePattern defaultSettings),
              startMarkerTemplate =
                (case startMarkerTemplateOpt langSettings of
                   Some t \<Rightarrow> t | None \<Rightarrow> startMarkerTemplate defaultSettings),
              endMarkerTemplate =
                (case endMarkerTemplateOpt langSettings of
                   Some t \<Rightarrow> t | None \<Rightarrow> endMarkerTemplate defaultSettings)\<rparr>)"

definition getContextAwareSettings ::
  "Config \<Rightarrow> TextDocument \<Rightarrow> nat \<Rightarrow> string \<Rightarrow> string option \<Rightarrow> exn + LanguageSettings" where
  "getContextAwareSettings cfg document lineNumber line includedFilePath =
     (case getCommentStyleOverride line of
        Some commentStyleOverride \<Rightarrow>
          Inr (createDefaultSettings (lineComment commentStyleOverride))
      | None \<Rightarrow>
          (case getSectionOverride cfg document lineNumber of
             Inl e \<Rightarrow> Inl e
           | Inr (Some sectionStyle) \<Rightarrow> Inr (createDefaultSettings (lineComment sectionStyle))
           | Inr None \<Rightarrow>
               (case (case includedFilePath of
                        None \<Rightarrow> None
                      | Some p \<Rightarrow> if p = [] then None else getLanguageFromExtension cfg p) of
                  Some detectedLanguage \<Rightarrow> Inr (getLanguageSettings cfg detectedLanguage)
                | None \<Rightarrow> Inr (getLanguageSettings cfg (languageId document)))))"

section \<open>The editor, the file system and the manager\<close>

text \<open>
  What the processor reads from outside: the configuration, the functions of the \<open>path\<close>
  module, the platform, and the files on disk. A file that exists may still fail to be
  read (\<open>readFileSync\<close> throws).
\<close>

datatype FileState = Missing | Readable string | Unreadable

record Env =
  config :: Config
  pathIsAbsolute :: "string \<Rightarrow> bool"
  pathResolve :: "string \<Rightarrow> string \<Rightarrow> string"
  pathDirname :: "string \<Rightarrow> string"
  pathNormalize :: "string \<Rightarrow> string"
  win32 :: bool
  files :: "string \<Rightarrow> FileState"

text \<open>
  The shared state of \<open>VirtualIncludeManager\<close>. A file watcher is identified with the path it
  watches; the messages shown through the UI handler are collected in order.
\<close>

record Manager =
  documentWatchers :: "string \<rightharpoonup> string list"
  documentIncludes :: "string \<rightharpoonup> (nat \<times> string) list"
  sourceToDocuments :: "string \<rightharpoonup> string set"
  isPerformingUpdate :: bool
  warningMessages :: "string list"
  errorMessages :: "string list"

definition showWarningMessage :: "string \<Rightarrow> Manager \<Rightarrow> Manager" where
  "showWarningMessage msg m = m\<lparr>warningMessages := warningMessages m @ [msg]\<rparr>"

definition showErrorMessage :: "string \<Rightarrow> Manager \<Rightarrow> Manager" where
  "showErrorMessage msg m = m\<lparr>errorMessages := errorMessages m @ [msg]\<rparr>"

fun exn_text :: "exn \<Rightarrow> string" where
  "exn_text IllegalLine = ''Error: Illegal value for `line`''"
| "exn_text TypeError = ''TypeError''"
| "exn_text ReadError = ''Error: read failed''"

text \<open>
  The document of the editor is its text; a position is a line and a character, both
  clamped into the document as the editor does. An edit replaces the text between two
  positions.
\<close>

datatype Edit =
    ReplaceEdit "nat \<times> nat" "nat \<times> nat" string
  | InsertEdit "nat \<times> nat" string

definition offsetAt :: "string list \<Rightarrow> nat \<times> nat \<Rightarrow> nat" where
  "offsetAt ls p =
     (case p of (l, c) \<Rightarrow>
        if l < length ls
        then length (join_lines (take l ls @ [take c (ls ! l)]))
        else length (join_lines ls))"

definition replaceRange :: "string \<Rightarrow> nat \<times> nat \<Rightarrow> nat \<times> nat \<Rightarrow> string \<Rightarrow> string" where
  "replaceRange txt p1 p2 new =
     (let ls = split_lines txt
      in take (offsetAt ls p1) txt @ new @ drop (offsetAt ls p2) txt)"

fun applyEdit :: "Edit \<Rightarrow> TextDocument \<Rightarrow> TextDocument" where
  "applyEdit (ReplaceEdit p1 p2 new) d = d\<lparr>getText := replaceRange (getText d) p1 p2 new\<rparr>"
| "applyEdit (InsertEdit p new) d = d\<lparr>getText := replaceRange (getText d) p p new\<rparr>"

section \<open>Document processor\<close>

definition resolveIncludePath :: "Env \<Rightarrow> TextDocument \<Rightarrow> string \<Rightarrow> string" where
  "resolveIncludePath env document includePath =
     (if pathIsAbsolute env includePath then includePath
      else pathResolve env (pathDirname env (fsPath document)) includePath)"

definition isSelfInclude :: "Env \<Rightarrow> TextDocument \<Rightarrow> string \<Rightarrow> bool" where
  "isSelfInclude env document includePath =
     (let resolvedIncludePath = resolveIncludePath env document includePath;
          normalizedDocPath = pathNormalize env (fsPath document);
          normalizedIncludePath = pathNormalize env resolvedIncludePath
      in if win32 env
         then toLowerCase normalizedIncludePath = toLowerCase normalizedDocPath
         else normalizedIncludePath = normalizedDocPath)"

text \<open>\<open>line.match(/^(\s*)/)?.[1] || ""\<close>\<close>

definition indentationOf :: "string \<Rightarrow> string" where
  "indentationOf line = takeWhile isWhiteSpace line"

text \<open>\<open>(line) => (line.length > 0 ? indentation + line : line)\<close>\<close>

definition indentLine :: "string \<Rightarrow> string \<Rightarrow> string" where
  "indentLine indentation line = (if 0 < length line then indentation @ line else line)"

definition indentContent :: "string \<Rightarrow> string \<Rightarrow> string" where
  "indentContent indentation content =
     join_lines (map (indentLine indentation) (split_lines content))"

text \<open>\<open>/(\s*\S+\s+)virtualInclude(\s+["'].+?["'])/\<close>\<close>

definition NEUTRALIZE_REGEX :: regex where
  "NEUTRALIZE_REGEX =
     Regex False
       ([GOpen, Cls Space Star, Cls NonSpace Plus, Cls Space Plus, GClose] @
        lit ''virtualInclude'' @
        [GOpen, Cls Space Plus, quote, Cls Dot LazyPlus, quote, GClose])"

text \<open>
  \<open>line.replace(re, "$1virtualInclude-nested (edit source file to modify)$2")\<close>: the first
  match only, the regular expression has no global flag.
\<close>

definition neutralizeReplace :: "string \<Rightarrow> string" where
  "neutralizeReplace line =
     (case rx_match NEUTRALIZE_REGEX line of
        None \<Rightarrow> line
      | Some m \<Rightarrow>
          (case groups m of
             [g1, g2] \<Rightarrow>
               before m @ g1 @ ''virtualInclude-nested (edit source file to modify)'' @ g2 @ after m
           | _ \<Rightarrow> line))"

definition neutralizeLine :: "LanguageSettings \<Rightarrow> string \<Rightarrow> string" where
  "neutralizeLine ls line =
     (if trim line = trim (startMarkerTemplate ls) \<or> trim line = trim (endMarkerTemplate ls)
      then line
      else if rx_test (includeDirectivePattern ls) line then neutralizeReplace line
      else line)"

definition neutralizeNestedIncludes :: "string \<Rightarrow> LanguageSettings \<Rightarrow> string" where
  "neutralizeNestedIncludes content ls =
     join_lines (map (neutralizeLine ls) (split_lines content))"

text \<open>\<open>Map.set\<close>: a new key goes last, a known key keeps its place.\<close>

fun map_set :: "nat \<Rightarrow> string \<Rightarrow> (nat \<times> string) list \<Rightarrow> (nat \<times> string) list" where
  "map_set k v [] = [(k, v)]"
| "map_set k v (p # ps) = (if fst p = k then (k, v) # ps else p # map_set k v ps)"

text \<open>The first index from \<open>start\<close> on whose line satisfies \<open>P\<close>: a loop that breaks at the
  first hit.\<close>

fun first_index :: "(string \<Rightarrow> bool) \<Rightarrow> string list \<Rightarrow> nat option" where
  "first_index P [] = None"
| "first_index P (l # ls) = (if P l then Some 0 else map_option Suc (first_index P ls))"

definition findFrom :: "(string \<Rightarrow> bool) \<Rightarrow> string list \<Rightarrow> nat \<Rightarrow> nat option" where
  "findFrom P ls start = map_option (\<lambda>k. start + k) (first_index P (drop start ls))"

definition isMarkerLine :: "string \<Rightarrow> string \<Rightarrow> string \<Rightarrow> bool" where
  "isMarkerLine t1 t2 line \<longleftrightarrow> trim line = trim t1 \<or> trim line = trim t2"

text \<open>\<open>xs.slice(a, b)\<close>\<close>

definition slice :: "'a list \<Rightarrow> nat \<Rightarrow> nat \<Rightarrow> 'a list" where
  "slice xs a b = take (b - a) (drop a xs)"

subsection \<open>The scan of \<open>processDocument\<close>\<close>

record ScanState =
  manager :: Manager
  includeMap :: "(nat \<times> string) list"
  watchers :: "string list"
  needsEdit :: bool

text \<open>The check of one directive against the lines below it: does the include need an edit?\<close>

definition regionNeedsEdit ::
  "string list \<Rightarrow> nat \<Rightarrow> string \<Rightarrow> LanguageSettings \<Rightarrow> LanguageSettings \<Rightarrow> bool" where
  "regionNeedsEdit lines i content languageSettings contextAwareSettings =
     (let line = lines ! i; nextLineIndex = i + 1
      in if nextLineIndex < length lines \<and>
            isMarkerLine (startMarkerTemplate languageSettings)
              (startMarkerTemplate contextAwareSettings) (lines ! nextLineIndex)
         then (case findFrom (isMarkerLine (endMarkerTemplate languageSettings)
                                 (endMarkerTemplate contextAwareSettings))
                      lines (nextLineIndex + 1) of
                 Some endLine \<Rightarrow>
                   join_lines (slice lines (nextLineIndex + 1) endLine)
                     \<noteq> indentContent (indentationOf line) content
               | None \<Rightarrow> True)
         else True)"

definition addSource :: "string \<Rightarrow> string \<Rightarrow> Manager \<Rightarrow> Manager" where
  "addSource resolvedPath documentKey m =
     m\<lparr>sourceToDocuments :=
         (sourceToDocuments m)(resolvedPath \<mapsto>
            insert documentKey (case sourceToDocuments m resolvedPath of
                                  None \<Rightarrow> {} | Some docs \<Rightarrow> docs))\<rparr>"

text \<open>\<open>sourceToDocuments.get(sourcePath) || new Set()\<close>, as the file watcher reads the mapping.\<close>

definition documentsOf :: "Manager \<Rightarrow> string \<Rightarrow> string set" where
  "documentsOf m sourcePath =
     (case sourceToDocuments m sourcePath of None \<Rightarrow> {} | Some docs \<Rightarrow> docs)"

text \<open>The inner \<open>try\<close> block of the scan, for a directive that is not a self-include.\<close>

definition scanInclude ::
  "Env \<Rightarrow> TextDocument \<Rightarrow> LanguageSettings \<Rightarrow> string list \<Rightarrow> nat \<Rightarrow> string \<Rightarrow>
   ScanState \<Rightarrow> ScanState" where
  "scanInclude env document languageSettings lines i filePath st =
     (let resolvedPath = resolveIncludePath env document filePath
      in case files env resolvedPath of
           Missing \<Rightarrow>
             st\<lparr>manager := showErrorMessage (''File not found: '' @ resolvedPath) (manager st)\<rparr>
         | Unreadable \<Rightarrow>
             st\<lparr>manager := showErrorMessage
                   (''Error processing include: '' @ exn_text ReadError) (manager st)\<rparr>
         | Readable content \<Rightarrow>
             (let st1 = st\<lparr>includeMap := map_set i content (includeMap st),
                            manager := addSource resolvedPath (uri document) (manager st)\<rparr>
              in case getContextAwareSettings (config env) document i (lines ! i)
                        (Some resolvedPath) of
                   Inl e \<Rightarrow>
                     st1\<lparr>manager := showErrorMessage
                            (''Error processing include: '' @ exn_text e) (manager st1)\<rparr>
                 | Inr contextAwareSettings \<Rightarrow>
                     st1\<lparr>needsEdit :=
                            (needsEdit st1 \<or>
                             regionNeedsEdit lines i content languageSettings contextAwareSettings),
                          watchers := watchers st1 @ [resolvedPath]\<rparr>))"

text \<open>
  The head of one round of the scanning loop: is the line a directive, and for which path?
  The path is the first group of the override pattern when that matches, else the first
  group of the directive pattern. \<open>Inl\<close> is an exception that leaves the loop.
\<close>

definition directiveAt :: "Config \<Rightarrow> TextDocument \<Rightarrow> nat \<Rightarrow> string \<Rightarrow> exn + string option" where
  "directiveAt cfg document i line =
     (case getContextAwareSettings cfg document i line None of
        Inl e \<Rightarrow> Inl e
      | Inr contextAwareSettings \<Rightarrow>
          (case rx_match (includeDirectivePattern contextAwareSettings) line of
             None \<Rightarrow> Inr None
           | Some m \<Rightarrow>
               (case (case rx_match COMMENT_OVERRIDE_REGEX line of
                        Some overrideMatch \<Rightarrow> groups overrideMatch
                      | None \<Rightarrow> groups m) of
                  [] \<Rightarrow> Inl TypeError
                | filePath # _ \<Rightarrow> Inr (Some filePath))))"

text \<open>One round of the scanning loop.\<close>

definition scanLine ::
  "Env \<Rightarrow> TextDocument \<Rightarrow> LanguageSettings \<Rightarrow> string list \<Rightarrow> nat \<Rightarrow> ScanState \<Rightarrow>
   exn + ScanState" where
  "scanLine env document languageSettings lines i st =
     (case directiveAt (config env) document i (lines ! i) of
        Inl e \<Rightarrow> Inl e
      | Inr None \<Rightarrow> Inr st
      | Inr (Some filePath) \<Rightarrow>
          if isSelfInclude env document filePath
          then Inr (st\<lparr>manager := showWarningMessage
                      (''Cannot include a file in itself: '' @ filePath) (manager st)\<rparr>)
          else Inr (scanInclude env document languageSettings lines i filePath st))"

fun scanLines ::
  "Env \<Rightarrow> TextDocument \<Rightarrow> LanguageSettings \<Rightarrow> string list \<Rightarrow> nat list \<Rightarrow> ScanState \<Rightarrow>
   exn option \<times> ScanState" where
  "scanLines env document languageSettings lines [] st = (None, st)"
| "scanLines env document languageSettings lines (i # rest) st =
     (case scanLine env document languageSettings lines i st of
        Inl e \<Rightarrow> (Some e, st)
      | Inr st' \<Rightarrow> scanLines env document languageSettings lines rest st')"

subsection \<open>The synchronization pass of \<open>updateDocument\<close>\<close>

text \<open>
  The state of the loop over the includes: the tracking array \<open>currentLines\<close>, the running
  \<open>lineOffset\<close>, the document of the editor, and the edits applied to it so far.
\<close>

record UpdateState =
  currentLines :: "string list"
  lineOffset :: int
  document :: TextDocument
  edits :: "Edit list"

text \<open>\<open>/virtualInclude\s+["'](.+?)["']/\<close>\<close>

definition INCLUDE_PATH_REGEX :: regex where
  "INCLUDE_PATH_REGEX =
     Regex False
       (lit ''virtualInclude'' @
        [Cls Space Plus, quote, GOpen, Cls Dot LazyPlus, GClose, quote])"

text \<open>\<open>includePathMatch ? includePathMatch[1] : ""\<close>: the path the directive line names.\<close>

definition includePathOf :: "string \<Rightarrow> string" where
  "includePathOf includeLine =
     (case rx_match INCLUDE_PATH_REGEX includeLine of
        Some m \<Rightarrow> (case groups m of g # _ \<Rightarrow> g | [] \<Rightarrow> [])
      | None \<Rightarrow> [])"

text \<open>\<open>xs.splice(start, deleteCount, ...items)\<close>\<close>

definition splice :: "'a list \<Rightarrow> nat \<Rightarrow> nat \<Rightarrow> 'a list \<Rightarrow> 'a list" where
  "splice xs start deleteCount items = take start xs @ items @ drop (start + deleteCount) xs"

text \<open>\<open>newContent.split("\n")\<close>, without its last element when that is empty.\<close>

definition contentLines :: "string \<Rightarrow> string list" where
  "contentLines newContent =
     (let newContentLines = split_lines newContent
      in if last newContentLines = [] then butlast newContentLines else newContentLines)"

text \<open>
  The end of the replaced span when the end marker is missing: the first line in the window
  that matches the directive pattern, else the last line of the window, else the line after
  the start marker.
\<close>

definition replacementEnd :: "regex \<Rightarrow> string list \<Rightarrow> nat \<Rightarrow> nat" where
  "replacementEnd directivePattern cur nextLineIndex =
     (let maxLines = min (length cur) (nextLineIndex + 20);
          js = [nextLineIndex + 1..<maxLines]
      in if js = [] then nextLineIndex + 1
         else (case find (\<lambda>j. rx_test directivePattern (cur ! j)) js of
                 Some j \<Rightarrow> j
               | None \<Rightarrow> last js))"

text \<open>The replacement of an existing block, from the start marker up to line \<open>endExcl\<close>.\<close>

definition replaceBlock :: "nat \<Rightarrow> nat \<Rightarrow> string \<Rightarrow> UpdateState \<Rightarrow> UpdateState" where
  "replaceBlock nextLineIndex endExcl newContent us =
     (let e = ReplaceEdit (nextLineIndex, 0) (endExcl, 0) newContent;
          oldLineCount = endExcl - nextLineIndex;
          newLineCount = length (split_lines newContent) - 1;
          newContentLines = contentLines newContent
      in us\<lparr>document := applyEdit e (document us),
             edits := edits us @ [e],
             currentLines := splice (currentLines us) nextLineIndex oldLineCount newContentLines,
             lineOffset := lineOffset us + (int newLineCount - int oldLineCount)\<rparr>)"

text \<open>The insertion of a new block at the end of the directive line.\<close>

definition insertBlock :: "nat \<Rightarrow> string \<Rightarrow> string \<Rightarrow> UpdateState \<Rightarrow> UpdateState" where
  "insertBlock adjustedLine includeLine newContent us =
     (let e = InsertEdit (adjustedLine, length includeLine) newContent;
          newContentLines = contentLines newContent
      in us\<lparr>document := applyEdit e (document us),
             edits := edits us @ [e],
             currentLines := splice (currentLines us) (adjustedLine + 1) 0 (tl newContentLines),
             lineOffset := lineOffset us + (int (length newContentLines) - 1)\<rparr>)"

text \<open>The template \<open>`${indentedStartMarker}\n${indentedContent}\n${indentedEndMarker}\n`\<close>.\<close>

definition blockText :: "string \<Rightarrow> string \<Rightarrow> string \<Rightarrow> string" where
  "blockText startMarker content endMarker =
     startMarker @ [nl] @ content @ [nl] @ endMarker @ [nl]"

text \<open>
  One round of the loop over the sorted includes, in three parts. Last, with the directive
  line at \<open>adjustedLine\<close> and the settings of its context known: nothing is done when no
  line follows the directive; a start marker below it leads to the replacement of the block,
  up to the first end marker or, without one, up to \<open>replacementEnd\<close>; otherwise the block
  is inserted. The text of the block is the same in the three branches.
\<close>

definition expandWith ::
  "LanguageSettings \<Rightarrow> LanguageSettings \<Rightarrow> nat \<Rightarrow> string \<Rightarrow> UpdateState \<Rightarrow> UpdateState" where
  "expandWith languageSettings contextAwareSettings adjustedLine content us =
     (let cur = currentLines us;
          includeLine = cur ! adjustedLine;
          indentation = indentationOf includeLine;
          indentedContent =
            neutralizeNestedIncludes (indentContent indentation content) languageSettings;
          indentedStartMarker = indentation @ startMarkerTemplate contextAwareSettings;
          indentedEndMarker = indentation @ endMarkerTemplate contextAwareSettings;
          newContent = blockText indentedStartMarker indentedContent indentedEndMarker;
          nextLineIndex = adjustedLine + 1
      in if length cur \<le> nextLineIndex then us
         else if isMarkerLine (startMarkerTemplate contextAwareSettings)
                   (startMarkerTemplate languageSettings) (cur ! nextLineIndex)
         then (case findFrom (isMarkerLine (endMarkerTemplate contextAwareSettings)
                                 (endMarkerTemplate languageSettings))
                      cur (nextLineIndex + 1) of
                 Some endLine \<Rightarrow> replaceBlock nextLineIndex (endLine + 1) newContent us
               | None \<Rightarrow>
                   replaceBlock nextLineIndex
                     (replacementEnd (includeDirectivePattern contextAwareSettings)
                        cur nextLineIndex)
                     newContent us)
         else insertBlock adjustedLine includeLine (nl # newContent) us)"

text \<open>Before that, the settings of the context of the directive line are looked up, for the
  path the line names; the lookup reads the document of the editor and may throw.\<close>

definition expandAt ::
  "Env \<Rightarrow> LanguageSettings \<Rightarrow> nat \<Rightarrow> string \<Rightarrow> UpdateState \<Rightarrow> exn + UpdateState" where
  "expandAt env languageSettings adjustedLine content us =
     (let includeLine = currentLines us ! adjustedLine;
          includePath = includePathOf includeLine;
          resolvedPath = resolveIncludePath env (document us) includePath
      in case getContextAwareSettings (config env) (document us) adjustedLine includeLine
                (Some resolvedPath) of
           Inl e \<Rightarrow> Inl e
         | Inr contextAwareSettings \<Rightarrow>
             Inr (expandWith languageSettings contextAwareSettings adjustedLine content us))"

text \<open>First, the line of the directive is shifted by the offset: a line past the end of
  \<open>currentLines\<close> is skipped, a negative one makes \<open>includeLine\<close> undefined and the first
  use of it throws. \<open>Inl\<close> is an exception that leaves the loop.\<close>

definition updateStep ::
  "Env \<Rightarrow> LanguageSettings \<Rightarrow> nat \<times> string \<Rightarrow> UpdateState \<Rightarrow> exn + UpdateState" where
  "updateStep env languageSettings entry us =
     (case entry of (lineNumber, content) \<Rightarrow>
        let adjusted = int lineNumber + lineOffset us
        in if int (length (currentLines us)) \<le> adjusted then Inr us
           else if adjusted < 0 then Inl TypeError
           else expandAt env languageSettings (nat adjusted) content us)"

fun updateEntries ::
  "Env \<Rightarrow> LanguageSettings \<Rightarrow> (nat \<times> string) list \<Rightarrow> UpdateState \<Rightarrow>
   exn option \<times> UpdateState" where
  "updateEntries env languageSettings [] us = (None, us)"
| "updateEntries env languageSettings (entry # rest) us =
     (case updateStep env languageSettings entry us of
        Inl e \<Rightarrow> (Some e, us)
      | Inr us' \<Rightarrow> updateEntries env languageSettings rest us')"

text \<open>The state before the loop: \<open>currentLines\<close> is a copy of the lines of the document.\<close>

definition initialState :: "TextDocument \<Rightarrow> UpdateState" where
  "initialState doc =
     \<lparr>currentLines = doc_lines doc, lineOffset = 0, document = doc, edits = []\<rparr>"

text \<open>What a call leaves behind: the manager, the document and the edits applied to it.\<close>

record Outcome =
  out_manager :: Manager
  out_document :: "TextDocument option"
  out_edits :: "Edit list"

text \<open>
  The body of the \<open>try\<close> block of \<open>updateDocument\<close>, after the gate is set: the early return
  for an editor that is no longer valid, else the loop; an exception is reported in the
  \<open>catch\<close> block.
\<close>

definition updateBody ::
  "Env \<Rightarrow> Manager \<Rightarrow> TextDocument option \<Rightarrow> (nat \<times> string) list \<Rightarrow> Outcome" where
  "updateBody env m editor incMap =
     (case editor of
        None \<Rightarrow> \<lparr>out_manager = m, out_document = None, out_edits = []\<rparr>
      | Some doc \<Rightarrow>
          if isClosed doc then \<lparr>out_manager = m, out_document = Some doc, out_edits = []\<rparr>
          else
            (let languageSettings = getLanguageSettings (config env) (languageId doc)
             in case updateEntries env languageSettings (sort_key fst incMap)
                       (initialState doc) of
                  (None, us) \<Rightarrow>
                    \<lparr>out_manager = m, out_document = Some (document us), out_edits = edits us\<rparr>
                | (Some e, us) \<Rightarrow>
                    \<lparr>out_manager =
                       showErrorMessage (''Extension error in updateDocument: '' @ exn_text e) m,
                     out_document = Some (document us), out_edits = edits us\<rparr>))"

text \<open>\<open>updateDocument\<close>: the gate is set, the body runs, the \<open>finally\<close> block resets the gate.\<close>

definition updateDocument ::
  "Env \<Rightarrow> Manager \<Rightarrow> TextDocument option \<Rightarrow> (nat \<times> string) list \<Rightarrow> Outcome" where
  "updateDocument env m editor incMap =
     (let r = updateBody env (m\<lparr>isPerformingUpdate := True\<rparr>) editor incMap
      in r\<lparr>out_manager := (out_manager r)\<lparr>isPerformingUpdate := False\<rparr>\<rparr>)"

subsection \<open>\<open>processDocument\<close>\<close>

text \<open>
  The state before the scanning loop: the watchers of the document are disposed of and
  deleted, a new and empty include map is stored for it. The mapping from sources to
  documents is left as it is.
\<close>

definition scanStart :: "Manager \<Rightarrow> TextDocument \<Rightarrow> ScanState" where
  "scanStart m doc =
     \<lparr>manager = m\<lparr>documentWatchers := (documentWatchers m)(uri doc := None),
                    documentIncludes := (documentIncludes m)(uri doc \<mapsto> [])\<rparr>,
      includeMap = [], watchers = [], needsEdit = False\<rparr>"

definition processDocument :: "Env \<Rightarrow> Manager \<Rightarrow> TextDocument \<Rightarrow> Outcome" where
  "processDocument env m doc =
     (let documentKey = uri doc;
          languageSettings = getLanguageSettings (config env) (languageId doc);
          lines = doc_lines doc
      in case scanLines env doc languageSettings lines [0..<length lines]
                (scanStart m doc) of
           (Some e, st) \<Rightarrow>
             \<lparr>out_manager =
                showErrorMessage (''Extension error: '' @ exn_text e)
                  ((manager st)\<lparr>documentIncludes :=
                      (documentIncludes (manager st))(documentKey \<mapsto> includeMap st)\<rparr>),
              out_document = Some doc, out_edits = []\<rparr>
         | (None, st) \<Rightarrow>
             (let m2 = (manager st)\<lparr>
                    documentIncludes :=
                      (documentIncludes (manager st))(documentKey \<mapsto> includeMap st),
                    documentWatchers :=
                      (documentWatchers (manager st))(documentKey \<mapsto> watchers st)\<rparr>
              in if needsEdit st then updateDocument env m2 (Some doc) (includeMap st)
                 else \<lparr>out_manager = m2, out_document = Some doc, out_edits = []\<rparr>))"

section \<open>The section override in the words of the specification\<close>

text \<open>
  The specification describes the section override as the nearest section start, scanning
  backward from the current line, that is not yet closed. This function follows those
  words, to be compared with \<open>sectionScan\<close>: at each line, going backward, it looks for a
  relevant override whose start pattern matches the line and whose \<open>continueUntil\<close>
  matches none of the lines after it up to the line asked for.
\<close>

fun nearestUnclosedStart ::
  "SectionOverride list \<Rightarrow> string list \<Rightarrow> nat \<Rightarrow> nat \<Rightarrow> string option" where
  "nearestUnclosedStart rel ls lineNumber i =
     (case find (\<lambda>ov. rx_test (pattern ov) (ls ! i) \<and>
                       \<not> list_ex (\<lambda>j. rx_test (continueUntil ov) (ls ! j))
                                  [Suc i..<Suc lineNumber]) rel of
        Some ov \<Rightarrow> Some (commentStyle ov)
      | None \<Rightarrow> (case i of 0 \<Rightarrow> None | Suc k \<Rightarrow> nearestUnclosedStart rel ls lineNumber k))"

section \<open>Reading a region back\<close>


section \<open>Example inputs\<close>

text \<open>
  A default configuration, a POSIX platform whose path functions agree with those of the
  \<open>path\<close> module on the simple paths used below, an empty manager, and Python documents
  in the directory \<open>/w\<close>.
\<close>

definition ex_config :: Config where
  "ex_config =
     \<lparr>defaultCommentStyle = ''#'', detectFromExtension = True,
      configuredLanguageSettings = (\<lambda>lang. None), languageOverrides = []\<rparr>"

definition ex_dirname :: "string \<Rightarrow> string" where
  "ex_dirname p = rev (drop 1 (dropWhile (\<lambda>c. c \<noteq> CHR ''/'') (rev p)))"

definition ex_env :: "(string \<Rightarrow> FileState) \<Rightarrow> Env" where
  "ex_env fs =
     \<lparr>config = ex_config,
      pathIsAbsolute = (\<lambda>p. take 1 p = ''/''),
      pathResolve = (\<lambda>dir p. dir @ ''/'' @ p),
      pathDirname = ex_dirname,
      pathNormalize = (\<lambda>p. p),
      win32 = False,
      files = fs\<rparr>"

definition ex_manager :: Manager where
  "ex_manager =
     \<lparr>documentWatchers = Map.empty, documentIncludes = Map.empty,
      sourceToDocuments = Map.empty, isPerformingUpdate = False,
      warningMessages = [], errorMessages = []\<rparr>"

definition ex_doc :: "string list \<Rightarrow> TextDocument" where
  "ex_doc ls =
     \<lparr>uri = ''file:///w/main.py'', fsPath = ''/w/main.py'', languageId = ''python'',
      getText = join_lines ls, isClosed = False\<rparr>"

text \<open>The directive line \<open># virtualInclude "p"\<close> and the two marker lines of Python.\<close>

definition directive :: "string \<Rightarrow> string" where
  "directive p = ''# virtualInclude '' @ [dq] @ p @ [dq]"

definition START :: string where
  "START = ''# virtualIncludeStart - DO NOT EDIT CONTENT BELOW ''"

definition END :: string where
  "END = ''# virtualIncludeEnd - DO NOT EDIT CONTENT ABOVE ''"

text \<open>The files: \<open>a.txt\<close> and \<open>b.txt\<close> hold one line each, \<open>n.txt\<close> holds a directive.\<close>

definition ex_files :: "string \<Rightarrow> FileState" where
  "ex_files p =
     (if p = ''/w/a.txt'' then Readable ''hello''
      else if p = ''/w/b.txt'' then Readable ''bye''
      else if p = ''/w/n.txt'' then Readable (directive ''d.txt'')
      else Missing)"

text \<open>The lines of the document after a call, and the positions of the edits.\<close>

definition lines_after :: "Outcome \<Rightarrow> string list" where
  "lines_after r = (case out_document r of Some d \<Rightarrow> doc_lines d | None \<Rightarrow> [])"

fun edit_range :: "Edit \<Rightarrow> (nat \<times> nat) \<times> (nat \<times> nat)" where
  "edit_range (ReplaceEdit p1 p2 new) = (p1, p2)"
| "edit_range (InsertEdit p new) = (p, p)"

text \<open>The inert spelling of a directive, \<open># virtualInclude-nested (...) "p"\<close>.\<close>

definition nested :: "string \<Rightarrow> string" where
  "nested p =
     ''# virtualInclude-nested (edit source file to modify) '' @ [dq] @ p @ [dq]"

definition python :: LanguageSettings where
  "python = getLanguageSettings ex_config ''python''"

text \<open>Two calls of \<open>processDocument\<close> in a row on one document, nothing else changing.\<close>

definition second_pass :: "Env \<Rightarrow> Manager \<Rightarrow> TextDocument \<Rightarrow> Outcome" where
  "second_pass env m doc =
     (let r1 = processDocument env m doc
      in case out_document r1 of
           Some d1 \<Rightarrow> processDocument env (out_manager r1) d1
         | None \<Rightarrow> r1)"












text \<open>The overrides of a configuration that are relevant for the language of a document.\<close>

definition relevantOverrides :: "Config \<Rightarrow> TextDocument \<Rightarrow> SectionOverride list" where
  "relevantOverrides cfg doc =
     filter (\<lambda>ov. fileType ov = languageId doc)
       (BUILT_IN_SECTION_OVERRIDES @ languageOverrides cfg)"





section \<open>Lemmas on lines, searches and the tracking array\<close>

lemma split_lines_nonempty [simp]: "split_lines s \<noteq> []"
  by (induction s) (auto split: list.splits)

lemma split_lines_append_nl: "split_lines (x @ nl # y) = split_lines x @ split_lines y"
  by (induction x) (auto split: list.splits)

lemma split_lines_snoc_nl: "split_lines (s @ [nl]) = split_lines s @ [[]]"
  using split_lines_append_nl [of s "[]"] by simp

lemma contentLines_snoc_nl: "contentLines (s @ [nl]) = split_lines s"
  by (simp add: contentLines_def Let_def split_lines_snoc_nl)

lemma first_index_Some:
  "first_index P ls = Some k \<Longrightarrow> k < length ls \<and> P (ls ! k) \<and> (\<forall>j<k. \<not> P (ls ! j))"
proof (induction ls arbitrary: k)
  case Nil
  then show ?case by simp
next
  case (Cons l ls)
  show ?case
  proof (cases "P l")
    case True
    with Cons.prems show ?thesis by simp
  next
    case False
    with Cons.prems obtain k' where k': "first_index P ls = Some k'" "k = Suc k'"
      by auto
    from Cons.IH [OF k'(1)] False k'(2) show ?thesis
      by (auto simp: nth_Cons split: nat.splits)
  qed
qed

lemma findFrom_Some:
  assumes "findFrom P ls start = Some j"
  shows "start \<le> j" and "j < length ls" and "P (ls ! j)"
    and "\<forall>k. start \<le> k \<and> k < j \<longrightarrow> \<not> P (ls ! k)"
proof -
  from assms obtain k where k: "first_index P (drop start ls) = Some k" "j = start + k"
    by (auto simp: findFrom_def)
  from first_index_Some [OF k(1)]
  have a: "k < length ls - start" and b: "P (drop start ls ! k)"
    and c: "\<forall>i<k. \<not> P (drop start ls ! i)"
    by auto
  from a k(2) show "start \<le> j" and "j < length ls" by auto
  from a b k(2) show "P (ls ! j)" by simp
  show "\<forall>k. start \<le> k \<and> k < j \<longrightarrow> \<not> P (ls ! k)"
  proof (intro allI impI)
    fix i assume i: "start \<le> i \<and> i < j"
    then have "i - start < k" using k(2) by auto
    with c have "\<not> P (drop start ls ! (i - start))" by blast
    moreover have "start + (i - start) = i" using i by simp
    ultimately show "\<not> P (ls ! i)" using a i k(2) by (simp add: nth_drop)
  qed
qed

lemma find_in_set: "find P xs = Some x \<Longrightarrow> x \<in> set xs"
  by (induction xs) (auto split: if_splits)

lemma replacementEnd_cases:
  "replacementEnd p cur n = n + 1 \<or>
   replacementEnd p cur n \<in> set [n + 1..<min (length cur) (n + 20)]"
proof (cases "[n + 1..<min (length cur) (n + 20)] = []")
  case True
  then show ?thesis by (simp add: replacementEnd_def Let_def)
next
  case False
  then have l: "last [n + 1..<min (length cur) (n + 20)] \<in> set [n + 1..<min (length cur) (n + 20)]"
    by (rule last_in_set)
  show ?thesis
  proof (cases "find (\<lambda>j. rx_test p (cur ! j)) [n + 1..<min (length cur) (n + 20)]")
    case None
    with False l show ?thesis
      unfolding replacementEnd_def Let_def by (simp only: if_False option.case) blast
  next
    case (Some j)
    from find_in_set [OF Some] False Some show ?thesis
      unfolding replacementEnd_def Let_def by (simp only: if_False option.case) blast
  qed
qed

lemma replacementEnd_bounds:
  assumes "n < length cur"
  shows "n + 1 \<le> replacementEnd p cur n" and "replacementEnd p cur n \<le> length cur"
  using replacementEnd_cases [of p cur n] assms by auto

text \<open>The tracking array has the length the offset says: each step keeps the balance.\<close>

lemma blockText_snoc: "blockText s c e = (s @ nl # c @ nl # e) @ [nl]"
  by (simp add: blockText_def)

lemma contentLines_blockText:
  "contentLines (blockText s c e) = split_lines s @ split_lines c @ split_lines e"
  unfolding blockText_snoc contentLines_snoc_nl by (simp add: split_lines_append_nl)

lemma length_split_blockText:
  "length (split_lines (blockText s c e))
   = Suc (length (split_lines s @ split_lines c @ split_lines e))"
  unfolding blockText_snoc split_lines_snoc_nl by (simp add: split_lines_append_nl)

lemma contentLines_nl_blockText:
  "contentLines (nl # blockText s c e) = [] # split_lines s @ split_lines c @ split_lines e"
proof -
  have "nl # blockText s c e = (nl # s @ nl # c @ nl # e) @ [nl]"
    by (simp add: blockText_def)
  then have "contentLines (nl # blockText s c e) = split_lines (nl # s @ nl # c @ nl # e)"
    by (simp only: contentLines_snoc_nl)
  also have "\<dots> = [] # split_lines (s @ nl # c @ nl # e)"
    by simp
  finally show ?thesis
    by (simp add: split_lines_append_nl)
qed

lemma replaceBlock_balance:
  assumes "nextLineIndex \<le> endExcl" and "endExcl \<le> length (currentLines us)"
  shows "int (length (currentLines (replaceBlock nextLineIndex endExcl (blockText s c e) us)))
           - lineOffset (replaceBlock nextLineIndex endExcl (blockText s c e) us)
         = int (length (currentLines us)) - lineOffset us"
  using assms
  by (simp add: replaceBlock_def Let_def splice_def contentLines_blockText
      length_split_blockText)

lemma insertBlock_balance:
  assumes "adjustedLine < length (currentLines us)"
  shows "int (length (currentLines (insertBlock adjustedLine includeLine
                                      (nl # blockText s c e) us)))
           - lineOffset (insertBlock adjustedLine includeLine (nl # blockText s c e) us)
         = int (length (currentLines us)) - lineOffset us"
  using assms
  by (simp add: insertBlock_def Let_def splice_def contentLines_nl_blockText)

lemma expandWith_cases:
  assumes "a < length (currentLines us)"
  shows "expandWith ls ctx a content us = us \<or>
    (\<exists>nextLineIndex endExcl s c e.
        expandWith ls ctx a content us
          = replaceBlock nextLineIndex endExcl (blockText s c e) us \<and>
        nextLineIndex \<le> endExcl \<and> endExcl \<le> length (currentLines us)) \<or>
    (\<exists>line s c e.
        expandWith ls ctx a content us = insertBlock a line (nl # blockText s c e) us)"
proof (cases "length (currentLines us) \<le> a + 1")
  case True
  then show ?thesis by (simp add: expandWith_def)
next
  case False
  then have n: "Suc a < length (currentLines us)" by simp
  show ?thesis
  proof (cases "isMarkerLine (startMarkerTemplate ctx) (startMarkerTemplate ls)
                  (currentLines us ! (a + 1))")
    case notmarker: False
    with False show ?thesis
      unfolding expandWith_def Let_def by (simp only: if_False) blast
  next
    case marker: True
    show ?thesis
    proof (cases "findFrom (isMarkerLine (endMarkerTemplate ctx) (endMarkerTemplate ls))
                    (currentLines us) (a + 1 + 1)")
      case None
      from replacementEnd_bounds [of "a + 1" "currentLines us" "includeDirectivePattern ctx"] n
      have "a + 1 \<le> replacementEnd (includeDirectivePattern ctx) (currentLines us) (a + 1)"
        and "replacementEnd (includeDirectivePattern ctx) (currentLines us) (a + 1)
               \<le> length (currentLines us)"
        by simp_all
      with False marker None show ?thesis
        unfolding expandWith_def Let_def by (simp only: if_False if_True option.case) blast
    next
      case (Some endLine)
      from findFrom_Some(1,2) [OF Some]
      have "a + 1 \<le> endLine + 1" and "endLine + 1 \<le> length (currentLines us)" by simp_all
      with False marker Some show ?thesis
        unfolding expandWith_def Let_def by (simp only: if_False if_True option.case) blast
    qed
  qed
qed

lemma expandWith_balance:
  assumes "a < length (currentLines us)"
  shows "int (length (currentLines (expandWith ls ctx a content us)))
           - lineOffset (expandWith ls ctx a content us)
         = int (length (currentLines us)) - lineOffset us"
  using expandWith_cases [OF assms, of ls ctx content]
    replaceBlock_balance [of _ _ us] insertBlock_balance [OF assms]
  by metis

lemma updateStep_balance:
  assumes "updateStep env ls entry us = Inr us'"
  shows "int (length (currentLines us')) - lineOffset us'
         = int (length (currentLines us)) - lineOffset us"
proof -
  obtain n content where entry: "entry = (n, content)" by (cases entry)
  show ?thesis
  proof (cases "int (length (currentLines us)) \<le> int n + lineOffset us")
    case True
    with assms entry show ?thesis by (simp add: updateStep_def)
  next
    case False
    with assms entry have nonneg: "\<not> int n + lineOffset us < 0"
      by (auto simp: updateStep_def Let_def split: if_splits)
    define a where "a = nat (int n + lineOffset us)"
    from False nonneg have a: "a < length (currentLines us)" by (simp add: a_def)
    from assms entry False nonneg have "expandAt env ls a content us = Inr us'"
      by (simp add: updateStep_def Let_def a_def)
    then obtain ctx where "us' = expandWith ls ctx a content us"
      by (auto simp: expandAt_def Let_def split: sum.splits)
    with expandWith_balance [OF a] show ?thesis by simp
  qed
qed

lemma updateEntries_balance:
  "int (length (currentLines (snd (updateEntries env ls es us))))
     - lineOffset (snd (updateEntries env ls es us))
   = int (length (currentLines us)) - lineOffset us"
proof (induction es arbitrary: us)
  case Nil
  show ?case by simp
next
  case (Cons entry es)
  show ?case
  proof (cases "updateStep env ls entry us")
    case (Inl e)
    then show ?thesis by simp
  next
    case (Inr us')
    with Cons.IH [of us'] updateStep_balance [OF Inr] show ?thesis by simp
  qed
qed

lemma updateEntries_append:
  "updateEntries env ls (es @ es') us =
     (case updateEntries env ls es us of
        (Some e, us') \<Rightarrow> (Some e, us')
      | (None, us') \<Rightarrow> updateEntries env ls es' us')"
  by (induction es arbitrary: us) (auto split: sum.splits)

lemma last_line_step:
  assumes "int n + lineOffset us = int (length (currentLines us)) - 1"
  shows "snd (updateEntries env ls [(n, content)] us) = us"
proof (cases "updateStep env ls (n, content) us")
  case (Inl e)
  then show ?thesis by simp
next
  case (Inr us')
  from assms have le: "\<not> int (length (currentLines us)) \<le> int n + lineOffset us" by simp
  with Inr have nonneg: "\<not> int n + lineOffset us < 0"
    by (auto simp: updateStep_def Let_def split: if_splits)
  define a where "a = nat (int n + lineOffset us)"
  from assms nonneg have a: "length (currentLines us) \<le> a + 1" by (simp add: a_def)
  from Inr le nonneg have "expandAt env ls a content us = Inr us'"
    by (simp add: updateStep_def Let_def a_def)
  then obtain ctx where "us' = expandWith ls ctx a content us"
    by (auto simp: expandAt_def Let_def split: sum.splits)
  with a have "us' = us" by (simp add: expandWith_def)
  with Inr show ?thesis by simp
qed








lemma documentsOf_showErrorMessage [simp]:
  "documentsOf (showErrorMessage msg m) S = documentsOf m S"
  by (simp add: documentsOf_def showErrorMessage_def)

lemma documentsOf_showWarningMessage [simp]:
  "documentsOf (showWarningMessage msg m) S = documentsOf m S"
  by (simp add: documentsOf_def showWarningMessage_def)







lemma sourceToDocuments_updateDocument [simp]:
  "sourceToDocuments (out_manager (updateDocument env m editor incMap)) = sourceToDocuments m"
  by (auto simp: updateDocument_def updateBody_def Let_def showErrorMessage_def
           split: option.splits prod.splits)



lemma documentsOf_scanStart [simp]: "documentsOf (manager (scanStart m doc)) S = documentsOf m S"
  by (simp add: documentsOf_def scanStart_def)


declare sectionScan.simps [simp del] nearestUnclosedStart.simps [simp del]
































section \<open>The update gate\<close>

text \<open>
  C9. The flag \<open>isPerformingUpdate\<close> is false after every call of \<open>updateDocument\<close>, whatever
  the editor, the include map and the flag before the call: the early return for an editor
  that is missing or closed, the exception reported by the \<open>catch\<close> block and the normal end
  of the loop all pass through the \<open>finally\<close> block.
\<close>

theorem updateDocument_resets_gate:
  "isPerformingUpdate (out_manager (updateDocument env m editor incMap)) = False"
  by (simp add: updateDocument_def Let_def)

section \<open>Neutralization of nested directives\<close>

text \<open>
  C7. Neutralization is not idempotent on a line that holds two directives: the first call
  rewrites the first directive only and leaves a live one, the second call rewrites that
  one, so the output of the first call is changed by the second.
\<close>

theorem neutralize_not_idempotent:
  "neutralizeNestedIncludes (directive ''a'' @ '' '' @ directive ''b'') python
     = nested ''a'' @ '' '' @ directive ''b'' \<and>
   neutralizeNestedIncludes (nested ''a'' @ '' '' @ directive ''b'') python
     = nested ''a'' @ '' '' @ nested ''b'' \<and>
   neutralizeNestedIncludes
       (neutralizeNestedIncludes (directive ''a'' @ '' '' @ directive ''b'') python) python
     \<noteq> neutralizeNestedIncludes (directive ''a'' @ '' '' @ directive ''b'') python"
  by code_simp

section \<open>Two passes in a row\<close>

text \<open>
  C3. A second pass over an unchanged document edits it again when the included file holds
  a directive: the first pass writes the neutralized line, the scan of the second pass
  compares the region with the content that is not neutralized, finds a difference and
  replaces the region by the same text.
\<close>

theorem second_pass_edits_again:
  "lines_after (processDocument (ex_env ex_files) ex_manager
                  (ex_doc [directive ''n.txt'', ''x = 1'']))
     = [directive ''n.txt'', START, nested ''d.txt'', END, [], ''x = 1''] \<and>
   map edit_range (out_edits (second_pass (ex_env ex_files) ex_manager
                  (ex_doc [directive ''n.txt'', ''x = 1''])))
     = [((1, 0), (4, 0))] \<and>
   lines_after (second_pass (ex_env ex_files) ex_manager
                  (ex_doc [directive ''n.txt'', ''x = 1'']))
     = [directive ''n.txt'', START, nested ''d.txt'', END, [], ''x = 1'']"
  by code_simp

section \<open>Line offsets within one pass\<close>

text \<open>
  C5. In a document with two directives that are not yet expanded, the first update inserts
  four lines into the document (the two markers, the content and the empty line left by the
  final line feed of the inserted text), but the running offset counts three. The second
  directive, at line 2 before the pass, stands at line 6 after the first update; its update
  is applied at line 5, and its block lands above the directive.
\<close>

theorem second_update_off_by_one:
  "map edit_range (out_edits (processDocument (ex_env ex_files) ex_manager
          (ex_doc [directive ''a.txt'', ''x = 1'', directive ''b.txt'', ''y = 2''])))
     = [((0, 24), (0, 24)), ((5, 24), (5, 24))] \<and>
   doc_lines (applyEdit
          (hd (out_edits (processDocument (ex_env ex_files) ex_manager
             (ex_doc [directive ''a.txt'', ''x = 1'', directive ''b.txt'', ''y = 2'']))))
          (ex_doc [directive ''a.txt'', ''x = 1'', directive ''b.txt'', ''y = 2'']))
     = [directive ''a.txt'', START, ''hello'', END, [], ''x = 1'', directive ''b.txt'', ''y = 2''] \<and>
   lines_after (processDocument (ex_env ex_files) ex_manager
          (ex_doc [directive ''a.txt'', ''x = 1'', directive ''b.txt'', ''y = 2'']))
     = [directive ''a.txt'', START, ''hello'', END, [], ''x = 1'',
        START, ''bye'', END, [], directive ''b.txt'', ''y = 2'']"
  by code_simp

section \<open>A directive on the last line\<close>

text \<open>
  C10. When the directive stands on the last line of the document (line \<open>n\<close> of \<open>n + 1\<close>
  lines), the scan classifies it as needing an edit, and the update pass makes no edit for
  it: whatever the includes processed before it in the pass did, processing it leaves the
  state of the pass (tracking array, offset, document, edits) as it was; a pass for this
  directive alone applies no edit and leaves the document as it is.
\<close>

theorem last_line_directive_is_skipped:
  assumes "Suc n = length (doc_lines doc)"
  shows "regionNeedsEdit (doc_lines doc) n content languageSettings contextAwareSettings \<and>
         snd (updateEntries env languageSettings (earlier @ [(n, content)]) (initialState doc))
           = snd (updateEntries env languageSettings earlier (initialState doc)) \<and>
         out_edits (updateDocument env m (Some doc) [(n, content)]) = [] \<and>
         out_document (updateDocument env m (Some doc) [(n, content)]) = Some doc"
proof (intro conjI)
  from assms show "regionNeedsEdit (doc_lines doc) n content languageSettings contextAwareSettings"
    by (simp add: regionNeedsEdit_def Let_def)
next
  obtain ex us' where r: "updateEntries env languageSettings earlier (initialState doc) = (ex, us')"
    by (cases "updateEntries env languageSettings earlier (initialState doc)")
  from updateEntries_balance [of env languageSettings earlier "initialState doc"] r assms
  have "int n + lineOffset us' = int (length (currentLines us')) - 1"
    by (simp add: initialState_def)
  from last_line_step [OF this, of env languageSettings content] r
  show "snd (updateEntries env languageSettings (earlier @ [(n, content)]) (initialState doc))
          = snd (updateEntries env languageSettings earlier (initialState doc))"
    by (cases ex; cases "updateEntries env languageSettings [(n, content)] us'")
       (simp_all add: updateEntries_append)
next
  from assms have "int n + lineOffset (initialState doc)
      = int (length (currentLines (initialState doc))) - 1"
    by (simp add: initialState_def)
  from last_line_step [OF this, of env "getLanguageSettings (config env) (languageId doc)" content]
  have s: "snd (updateEntries env (getLanguageSettings (config env) (languageId doc))
                 [(n, content)] (initialState doc)) = initialState doc" .
  obtain ex us' where r: "updateEntries env (getLanguageSettings (config env) (languageId doc))
                 [(n, content)] (initialState doc) = (ex, us')"
    by (cases "updateEntries env (getLanguageSettings (config env) (languageId doc))
                 [(n, content)] (initialState doc)")
  with s have us': "us' = initialState doc" by simp
  from r us' show "out_edits (updateDocument env m (Some doc) [(n, content)]) = []"
    by (cases ex) (simp_all add: updateDocument_def updateBody_def Let_def initialState_def)
  from r us' show "out_document (updateDocument env m (Some doc) [(n, content)]) = Some doc"
    by (cases ex) (simp_all add: updateDocument_def updateBody_def Let_def initialState_def)
qed

text \<open>The theorem at the one-line document \<open># virtualInclude "a.txt"\<close>.\<close>

theorem last_line_directive_is_skipped_witness:
  "Suc 0 = length (doc_lines (ex_doc [directive ''a.txt''])) \<and>
   regionNeedsEdit (doc_lines (ex_doc [directive ''a.txt''])) 0 ''hello'' python python \<and>
   snd (updateEntries (ex_env ex_files) python ([] @ [(0, ''hello'')])
          (initialState (ex_doc [directive ''a.txt''])))
     = snd (updateEntries (ex_env ex_files) python [] (initialState (ex_doc [directive ''a.txt'']))) \<and>
   out_edits (updateDocument (ex_env ex_files) ex_manager (Some (ex_doc [directive ''a.txt'']))
                [(0, ''hello'')]) = [] \<and>
   out_document (updateDocument (ex_env ex_files) ex_manager (Some (ex_doc [directive ''a.txt'']))
                [(0, ''hello'')]) = Some (ex_doc [directive ''a.txt''])"
proof -
  have h: "Suc 0 = length (doc_lines (ex_doc [directive ''a.txt'']))"
    by code_simp
  from last_line_directive_is_skipped [OF h, of "''hello''" python python "ex_env ex_files" "[]" ex_manager] h
  show ?thesis by blast
qed

section \<open>Self-includes\<close>



section \<open>The mapping from sources to documents\<close>




section \<open>The end of a region\<close>




section \<open>Resolution of the language settings\<close>




section \<open>The region written for a directive\<close>




end
